theory Spec2Isabelle
  imports Main
begin

section \<open>Data model of \<^verbatim>\<open>beetmoverscript/script.py\<close>\<close>

text \<open>
  Exceptions are values. \<^verbatim>\<open>main\<close> distinguishes only \<^verbatim>\<open>ScriptWorkerTaskException\<close>
  (and its subclasses), which carries an \<^verbatim>\<open>exit_code\<close>, from every other exception.
\<close>

datatype exc = ScriptWorkerTaskException int | OtherException string

text \<open>
  \<^verbatim>\<open>context.config\<close> is a dictionary loaded from the configuration file. The script reads
  \<^verbatim>\<open>work_dir\<close>, \<^verbatim>\<open>s3.bucket\<close>, \<^verbatim>\<open>s3.credentials\<close> (its \<^verbatim>\<open>id\<close> and \<^verbatim>\<open>key\<close>) and the optional key
  \<^verbatim>\<open>valid_artifact_task_ids\<close> (absent is \<open>None\<close>). The configuration is taken as
  schema-shaped: the keys the script subscripts are present.
\<close>

record credentials =
  access_id :: string
  access_key :: string

record s3_config =
  bucket :: string
  credentials :: credentials

record config =
  work_dir :: string
  s3 :: s3_config
  valid_artifact_task_ids :: "string list option"

record task =
  dependencies :: "string list"

text \<open>
  The context object holds a reference to the configuration dictionary (an address of the
  store below) and the task. \<^verbatim>\<open>beetmove_bits\<close> is only reached from \<^verbatim>\<open>async_main\<close>
  after \<^verbatim>\<open>context.task\<close> has been set.
\<close>

record script_context =
  config :: nat
  task :: task

text \<open>The manifest of \<^verbatim>\<open>generate_candidates_manifest\<close>; dictionaries in iteration order.\<close>

record entry =
  artifact :: string
  s3_key :: string

record manifest =
  artifact_base_url :: string
  s3_prefix_dated :: string
  s3_prefix_latest :: string
  mapping :: "(string \<times> (string \<times> entry) list) list"

text \<open>\<^verbatim>\<open>mimetypes.guess_type\<close> returns a pair \<^verbatim>\<open>(type, encoding)\<close>.\<close>

type_synonym mime_guess = "string option \<times> string option"

record api_kwargs =
  Bucket :: string
  Key :: string
  ContentType :: mime_guess

type_synonym headers = "(string \<times> mime_guess) list"

text \<open>
  The calls that leave the script, in the order they are made: the allowlist validation of
  a source, one attempt of \<^verbatim>\<open>download_file\<close>, the request for a presigned URL (with
  its parameters and \<^verbatim>\<open>expires_in\<close>) and one attempt of \<^verbatim>\<open>upload_file\<close>.
\<close>

datatype event =
    Validate string
  | DownloadAttempt string string
  | Presign api_kwargs nat
  | UploadAttempt string headers string

text \<open>
  The mutable state: a store of configuration dictionaries (\<^verbatim>\<open>deepcopy\<close> allocates at
  \<open>next_addr\<close>), the table of the \<^verbatim>\<open>mimetypes\<close> module, and the trace of external calls.
\<close>

record state =
  heap :: "nat \<Rightarrow> config"
  next_addr :: nat
  types_map :: "string \<rightharpoonup> string"
  trace :: "event list"

text \<open>
  The collaborators that are not part of this repository's \<^verbatim>\<open>script.py\<close>. An attempt's
  outcome may depend on everything that happened before it, so the transfer functions and
  the URL signer read the trace; the signer is the S3 client made from the credentials.
  \<open>attempts\<close> is the attempt budget of scriptworker's
  \<^verbatim>\<open>retry_async\<close>; \<open>MIME_MAP\<close> is \<^verbatim>\<open>beetmoverscript.constants.MIME_MAP.items()\<close>;
  \<open>platform_types\<close> is the table \<^verbatim>\<open>mimetypes.init()\<close> loads.
\<close>

record env =
  validate_artifact_url :: "config \<Rightarrow> string \<Rightarrow> exc + string"
  download_file :: "event list \<Rightarrow> string \<Rightarrow> string \<Rightarrow> exc option"
  upload_file :: "event list \<Rightarrow> string \<Rightarrow> headers \<Rightarrow> string \<Rightarrow> exc option"
  generate_presigned_url :: "event list \<Rightarrow> credentials \<Rightarrow> api_kwargs \<Rightarrow> nat \<Rightarrow> exc + string"
  attempts :: nat
  MIME_MAP :: "(string \<times> string) list"
  platform_types :: "string \<rightharpoonup> string"
  load_json :: "string \<Rightarrow> exc + config"
  get_task :: "config \<Rightarrow> exc + task"
  validate_task_schema :: "config \<Rightarrow> task \<Rightarrow> exc option"
  generate_candidates_manifest :: "config \<Rightarrow> task \<Rightarrow> exc + manifest"

section \<open>Library functions the script calls\<close>

text \<open>\<^verbatim>\<open>os.path.join(a, b)\<close> of \<^verbatim>\<open>posixpath\<close>, for two arguments.\<close>

definition startswith_sep :: "string \<Rightarrow> bool" where
  "startswith_sep b = (case b of [] \<Rightarrow> False | c # _ \<Rightarrow> c = CHR ''/'')"

definition endswith_sep :: "string \<Rightarrow> bool" where
  "endswith_sep a = (case rev a of [] \<Rightarrow> False | c # _ \<Rightarrow> c = CHR ''/'')"

definition os_path_join :: "string \<Rightarrow> string \<Rightarrow> string" where
  "os_path_join a b =
     (if startswith_sep b then b
      else if a = [] \<or> endswith_sep a then a @ b
      else a @ ''/'' @ b)"

text \<open>
  The extension of \<^verbatim>\<open>posixpath.splitext\<close>: from the last dot of the last path component,
  unless only dots precede it there.
\<close>

definition splitext_ext :: "string \<Rightarrow> string" where
  "splitext_ext p =
     (let name = rev (takeWhile (\<lambda>c. c \<noteq> CHR ''/'') (rev p));
          suffix = rev (takeWhile (\<lambda>c. c \<noteq> CHR ''.'') (rev name));
          stem = take (length name - Suc (length suffix)) name
      in if length suffix < length name \<and> filter (\<lambda>c. c \<noteq> CHR ''.'') stem \<noteq> []
         then CHR ''.'' # suffix else [])"

text \<open>
  \<^verbatim>\<open>mimetypes.guess_type(path)\<close> on the module's table: the type registered for the
  extension, and no encoding. (The library's suffix and encoding maps for compressed
  files and its lower-case fallback are left out; they do not touch the table.)
\<close>

definition guess_type :: "(string \<rightharpoonup> string) \<Rightarrow> string \<Rightarrow> mime_guess" where
  "guess_type tm path = (tm (splitext_ext path), None)"

text \<open>\<^verbatim>\<open>mimetypes.add_type(type, ext)\<close> registers one extension.\<close>

definition add_type :: "string \<Rightarrow> string \<Rightarrow> state \<Rightarrow> state" where
  "add_type ty ext st = st\<lparr>types_map := (types_map st)(ext \<mapsto> ty)\<rparr>"

definition mimetypes_init :: "env \<Rightarrow> state \<Rightarrow> state" where
  "mimetypes_init E st = st\<lparr>types_map := platform_types E\<rparr>"

text \<open>\<^verbatim>\<open>copy.deepcopy\<close> of a stored dictionary: a new object with the same contents.\<close>

definition deepcopy :: "nat \<Rightarrow> state \<Rightarrow> nat \<times> state" where
  "deepcopy a st =
     (next_addr st,
      st\<lparr>heap := (heap st)(next_addr st := heap st a), next_addr := Suc (next_addr st)\<rparr>)"

text \<open>\<^verbatim>\<open>d.setdefault('valid_artifact_task_ids', v)\<close>: sets the key only when absent.\<close>

definition setdefault_ids :: "config \<Rightarrow> string list \<Rightarrow> config" where
  "setdefault_ids c v =
     (case valid_artifact_task_ids c of
        None \<Rightarrow> c\<lparr>valid_artifact_task_ids := Some v\<rparr>
      | Some _ \<Rightarrow> c)"

definition setdefault :: "nat \<Rightarrow> string list \<Rightarrow> state \<Rightarrow> state" where
  "setdefault a v st = st\<lparr>heap := (heap st)(a := setdefault_ids (heap st a) v)\<rparr>"

definition emit :: "event \<Rightarrow> state \<Rightarrow> state" where
  "emit e st = st\<lparr>trace := trace st @ [e]\<rparr>"

text \<open>
  scriptworker's \<^verbatim>\<open>retry_async(func, args=...)\<close>: call \<^verbatim>\<open>func\<close> with the same arguments
  until it returns, or re-raise its exception once the attempt budget is used up. The
  first argument is the number of attempts left after the coming one.
\<close>

fun retry_async :: "nat \<Rightarrow> (state \<Rightarrow> exc option \<times> state) \<Rightarrow> state \<Rightarrow> exc option \<times> state" where
  "retry_async 0 func st = func st"
| "retry_async (Suc n) func st =
     (case func st of
        (None, st') \<Rightarrow> (None, st')
      | (Some e, st') \<Rightarrow> retry_async n func st')"

definition download_file_call :: "env \<Rightarrow> string \<Rightarrow> string \<Rightarrow> state \<Rightarrow> exc option \<times> state" where
  "download_file_call E url path st =
     (let st' = emit (DownloadAttempt url path) st
      in (download_file E (trace st') url path, st'))"

definition upload_file_call ::
  "env \<Rightarrow> string \<Rightarrow> headers \<Rightarrow> string \<Rightarrow> state \<Rightarrow> exc option \<times> state" where
  "upload_file_call E url hdrs path st =
     (let st' = emit (UploadAttempt url hdrs path) st
      in (upload_file E (trace st') url hdrs path, st'))"

section \<open>The script\<close>

definition download :: "env \<Rightarrow> string \<Rightarrow> string \<Rightarrow> state \<Rightarrow> exc option \<times> state" where
  "download E url path st = retry_async (attempts E - 1) (download_file_call E url path) st"

definition upload_to_s3 ::
  "env \<Rightarrow> script_context \<Rightarrow> string \<Rightarrow> string \<Rightarrow> state \<Rightarrow> exc option \<times> state" where
  "upload_to_s3 E ctx key path st =
     (let kwargs = \<lparr>Bucket = bucket (s3 (heap st (config ctx))), Key = key,
                    ContentType = guess_type (types_map st) path\<rparr>;
          hdrs = [(''Content-Type'', guess_type (types_map st) path)];
          creds = credentials (s3 (heap st (config ctx)));
          st1 = emit (Presign kwargs 30) st
      in case generate_presigned_url E (trace st1) creds kwargs 30 of
           Inl e \<Rightarrow> (Some e, st1)
         | Inr url \<Rightarrow> retry_async (attempts E - 1) (upload_file_call E url hdrs path) st1)"

text \<open>The loop over \<^verbatim>\<open>destinations\<close>: an exception of one upload leaves the loop.\<close>

fun upload_all ::
  "env \<Rightarrow> script_context \<Rightarrow> string list \<Rightarrow> string \<Rightarrow> state \<Rightarrow> exc option \<times> state" where
  "upload_all E ctx [] path st = (None, st)"
| "upload_all E ctx (dest # dests) path st =
     (case upload_to_s3 E ctx dest path st of
        (Some e, st') \<Rightarrow> (Some e, st')
      | (None, st') \<Rightarrow> upload_all E ctx dests path st')"

definition beetmove_bit ::
  "env \<Rightarrow> script_context \<Rightarrow> string \<Rightarrow> string list \<Rightarrow> state \<Rightarrow> exc option \<times> state" where
  "beetmove_bit E ctx source destinations st =
     (case deepcopy (config ctx) st of
        (beet_config, st1) \<Rightarrow>
          (let st2 = setdefault beet_config (dependencies (task ctx)) st1;
               st3 = emit (Validate source) st2
           in (case validate_artifact_url E (heap st3 beet_config) source of
                 Inl e \<Rightarrow> (Some e, st3)
               | Inr rel_path \<Rightarrow>
                   (let abs_file_path = os_path_join (work_dir (heap st3 (config ctx))) rel_path
                    in (case download E source abs_file_path st3 of
                          (Some e, st4) \<Rightarrow> (Some e, st4)
                        | (None, st4) \<Rightarrow> upload_all E ctx destinations abs_file_path st4)))))"

text \<open>
  Lines 47 to 52 of \<^verbatim>\<open>beetmove_bits\<close>: the source and the two destinations computed for
  one entry of the mapping, the arguments of the call of \<^verbatim>\<open>beetmove_bit\<close> on line 53.
\<close>

definition copy_job :: "manifest \<Rightarrow> entry \<Rightarrow> string \<times> string list" where
  "copy_job m e =
     (let source = os_path_join (artifact_base_url m) (artifact e);
          dest_dated = os_path_join (s3_prefix_dated m) (s3_key e);
          dest_latest = os_path_join (s3_prefix_latest m) (s3_key e)
      in (source, [dest_dated, dest_latest]))"

text \<open>The two nested loops of \<^verbatim>\<open>beetmove_bits\<close>, inner loop first.\<close>

fun beetmove_deliverables ::
  "env \<Rightarrow> script_context \<Rightarrow> manifest \<Rightarrow> (string \<times> entry) list \<Rightarrow> state \<Rightarrow> exc option \<times> state" where
  "beetmove_deliverables E ctx m [] st = (None, st)"
| "beetmove_deliverables E ctx m ((deliverable, e) # rest) st =
     (case copy_job m e of
        (source, destinations) \<Rightarrow>
          (case beetmove_bit E ctx source destinations st of
             (Some x, st') \<Rightarrow> (Some x, st')
           | (None, st') \<Rightarrow> beetmove_deliverables E ctx m rest st'))"

fun beetmove_locales ::
  "env \<Rightarrow> script_context \<Rightarrow> manifest \<Rightarrow> (string \<times> (string \<times> entry) list) list \<Rightarrow> state
     \<Rightarrow> exc option \<times> state" where
  "beetmove_locales E ctx m [] st = (None, st)"
| "beetmove_locales E ctx m ((locale, ds) # rest) st =
     (case beetmove_deliverables E ctx m ds st of
        (Some x, st') \<Rightarrow> (Some x, st')
      | (None, st') \<Rightarrow> beetmove_locales E ctx m rest st')"

definition beetmove_bits :: "env \<Rightarrow> script_context \<Rightarrow> manifest \<Rightarrow> state \<Rightarrow> exc option \<times> state" where
  "beetmove_bits E ctx m st = beetmove_locales E ctx m (mapping m) st"

text \<open>
  \<^verbatim>\<open>async_main\<close>: read the task, validate it, build the manifest, move the bits. Each
  collaborator may raise.
\<close>

definition async_main :: "env \<Rightarrow> nat \<Rightarrow> state \<Rightarrow> exc option \<times> state" where
  "async_main E cfg st =
     (case get_task E (heap st cfg) of
        Inl x \<Rightarrow> (Some x, st)
      | Inr t \<Rightarrow>
          (case validate_task_schema E (heap st cfg) t of
             Some x \<Rightarrow> (Some x, st)
           | None \<Rightarrow>
               (case generate_candidates_manifest E (heap st cfg) t of
                  Inl x \<Rightarrow> (Some x, st)
                | Inr m \<Rightarrow> beetmove_bits E \<lparr>config = cfg, task = t\<rparr> m st)))"

text \<open>
  How a call of \<^verbatim>\<open>main\<close> ends: it returns, \<^verbatim>\<open>sys.exit\<close> is called with a status, or
  an exception is not caught.
\<close>

datatype outcome = Returned | SystemExit int | Uncaught exc

text \<open>
  \<^verbatim>\<open>setup_config\<close>: without a path, exactly one command-line argument is required
  (\<^verbatim>\<open>usage\<close> exits with 1); the loaded dictionary becomes a new object of the store.
\<close>

definition setup_config ::
  "env \<Rightarrow> string option \<Rightarrow> string list \<Rightarrow> state \<Rightarrow> outcome + nat \<times> state" where
  "setup_config E config_path argv st =
     (case (case config_path of
              None \<Rightarrow> (if length argv \<noteq> 2 then Inl (SystemExit 1) else Inr (argv ! 1))
            | Some p \<Rightarrow> Inr p) of
        Inl out \<Rightarrow> Inl out
      | Inr path \<Rightarrow>
          (case load_json E path of
             Inl x \<Rightarrow> Inl (Uncaught x)
           | Inr c \<Rightarrow>
               Inr (next_addr st,
                    st\<lparr>heap := (heap st)(next_addr st := c), next_addr := Suc (next_addr st)\<rparr>)))"

text \<open>
  \<^verbatim>\<open>setup_mimetypes\<close>: after \<^verbatim>\<open>mimetypes.init()\<close>, line 121 builds a \<^verbatim>\<open>map\<close> object
  over \<^verbatim>\<open>MIME_MAP.items()\<close> and drops it. The script is Python 3 (\<^verbatim>\<open>async def\<close>),
  where \<^verbatim>\<open>map\<close> is lazy: the object holds the pending \<^verbatim>\<open>add_type\<close> calls, and
  none of them runs, because nothing iterates it.
\<close>

definition setup_mimetypes :: "env \<Rightarrow> state \<Rightarrow> state" where
  "setup_mimetypes E st =
     (let st1 = mimetypes_init E st;
          map_object = map (\<lambda>ext_mimetype. add_type (snd ext_mimetype) (fst ext_mimetype))
                         (MIME_MAP E)
      in st1)"

definition main ::
  "env \<Rightarrow> string option \<Rightarrow> string option \<Rightarrow> string list \<Rightarrow> state \<Rightarrow> outcome \<times> state" where
  "main E name config_path argv st =
     (if name \<noteq> None \<and> name \<noteq> Some ''__main__'' then (Returned, st)
      else (case setup_config E config_path argv st of
              Inl out \<Rightarrow> (out, st)
            | Inr (cfg, st1) \<Rightarrow>
                (case async_main E cfg (setup_mimetypes E st1) of
                   (None, st2) \<Rightarrow> (Returned, st2)
                 | (Some (ScriptWorkerTaskException exit_code), st2) \<Rightarrow> (SystemExit exit_code, st2)
                 | (Some (OtherException x), st2) \<Rightarrow> (Uncaught (OtherException x), st2))))"

text \<open>
  The status of the process: 0 when the script runs to its end, the argument of
  \<^verbatim>\<open>sys.exit\<close>, and 1 when the interpreter ends on an uncaught exception.
\<close>

definition exit_status :: "outcome \<Rightarrow> int" where
  "exit_status out = (case out of Returned \<Rightarrow> 0 | SystemExit c \<Rightarrow> c | Uncaught _ \<Rightarrow> 1)"

section \<open>Reading the trace\<close>

text \<open>The keys for which a presigned URL was requested, one per call of \<^verbatim>\<open>upload_to_s3\<close>.\<close>

fun presigned_keys :: "event list \<Rightarrow> string list" where
  "presigned_keys [] = []"
| "presigned_keys (Presign kw ttl # evs) = Key kw # presigned_keys evs"
| "presigned_keys (_ # evs) = presigned_keys evs"

text \<open>The events of the upload path: URL requests and upload attempts.\<close>

fun upload_events :: "event list \<Rightarrow> event list" where
  "upload_events [] = []"
| "upload_events (Presign kw ttl # evs) = Presign kw ttl # upload_events evs"
| "upload_events (UploadAttempt url hdrs path # evs) = UploadAttempt url hdrs path # upload_events evs"
| "upload_events (_ # evs) = upload_events evs"

text \<open>The sources of the download attempts, and the validated sources.\<close>

fun downloaded :: "event list \<Rightarrow> string list" where
  "downloaded [] = []"
| "downloaded (DownloadAttempt url path # evs) = url # downloaded evs"
| "downloaded (_ # evs) = downloaded evs"

fun validated :: "event list \<Rightarrow> string list" where
  "validated [] = []"
| "validated (Validate url # evs) = url # validated evs"
| "validated (_ # evs) = validated evs"

text \<open>
  The state in which \<^verbatim>\<open>beetmove_bit\<close> stands when \<^verbatim>\<open>validate_artifact_url\<close> has been
  called (lines 57 to 60): the copy is made, its default is set, the validation is on the
  trace.
\<close>

definition validating :: "script_context \<Rightarrow> string \<Rightarrow> state \<Rightarrow> state" where
  "validating ctx source st =
     emit (Validate source)
       (setdefault (fst (deepcopy (config ctx) st)) (dependencies (task ctx))
          (snd (deepcopy (config ctx) st)))"

text \<open>Jobs run one after the other; the first exception ends the run.\<close>

fun run_jobs ::
  "env \<Rightarrow> script_context \<Rightarrow> (string \<times> string list) list \<Rightarrow> state \<Rightarrow> exc option \<times> state" where
  "run_jobs E ctx [] st = (None, st)"
| "run_jobs E ctx ((source, destinations) # js) st =
     (case beetmove_bit E ctx source destinations st of
        (Some x, st') \<Rightarrow> (Some x, st')
      | (None, st') \<Rightarrow> run_jobs E ctx js st')"

text \<open>The entries of the mapping in the order the loops visit them.\<close>

definition entries :: "manifest \<Rightarrow> entry list" where
  "entries m = concat (map (\<lambda>(locale, ds). map snd ds) (mapping m))"

section \<open>A concrete run\<close>

text \<open>
  The end-to-end scenario: one work directory, one bucket, the task depending on
  \<^verbatim>\<open>task123\<close>, and a manifest with one entry per locale. The configuration lives at
  address 0 of the store.
\<close>

definition cfg0 :: config where
  "cfg0 = \<lparr>work_dir = ''/w'',
           s3 = \<lparr>bucket = ''b'', credentials = \<lparr>access_id = ''i'', access_key = ''k''\<rparr>\<rparr>,
           valid_artifact_task_ids = None\<rparr>"

definition st0 :: state where
  "st0 = \<lparr>heap = (\<lambda>_. cfg0), next_addr = 1, types_map = Map.empty, trace = []\<rparr>"

definition task0 :: task where
  "task0 = \<lparr>dependencies = [''task123'']\<rparr>"

definition ctx0 :: script_context where
  "ctx0 = \<lparr>config = 0, task = task0\<rparr>"

definition m1 :: manifest where
  "m1 = \<lparr>artifact_base_url = ''u'', s3_prefix_dated = ''d'', s3_prefix_latest = ''l'',
          mapping = [(''en-US'', [(''installer'', \<lparr>artifact = ''a.exe'', s3_key = ''a.exe''\<rparr>)])]\<rparr>"

definition m2 :: manifest where
  "m2 = \<lparr>artifact_base_url = ''u'', s3_prefix_dated = ''d'', s3_prefix_latest = ''l'',
          mapping = [(''en-US'', [(''installer'', \<lparr>artifact = ''a.exe'', s3_key = ''a.exe''\<rparr>)]),
                     (''de'', [(''installer'', \<lparr>artifact = ''b.exe'', s3_key = ''b.exe''\<rparr>)])]\<rparr>"

text \<open>
  Collaborators under which everything succeeds: a source is trusted when the copy of the
  configuration it is validated against names \<^verbatim>\<open>task123\<close>; two attempts per transfer.
\<close>

definition env_ok :: env where
  "env_ok =
     \<lparr>validate_artifact_url =
        (\<lambda>c url. if valid_artifact_task_ids c = Some [''task123''] then Inr url
                  else Inl (ScriptWorkerTaskException 3)),
      download_file = (\<lambda>tr url path. None),
      upload_file = (\<lambda>tr url hdrs path. None),
      generate_presigned_url = (\<lambda>tr creds kw ttl. Inr (''s/'' @ Key kw)),
      attempts = 2,
      MIME_MAP = [(''.asc'', ''text/plain'')],
      platform_types = Map.empty,
      load_json = (\<lambda>path. Inr cfg0),
      get_task = (\<lambda>c. Inr task0),
      validate_task_schema = (\<lambda>c t. None),
      generate_candidates_manifest = (\<lambda>c t. Inr m1)\<rparr>"

text \<open>No source is trusted.\<close>

definition env_untrusted :: env where
  "env_untrusted =
     env_ok\<lparr>validate_artifact_url := (\<lambda>c url. Inl (ScriptWorkerTaskException 3))\<rparr>"

text \<open>Every download attempt fails.\<close>

definition env_download_fails :: env where
  "env_download_fails =
     env_ok\<lparr>download_file := (\<lambda>tr url path. Some (OtherException ''download''))\<rparr>"

text \<open>The same, with the manifest of two entries.\<close>

definition env_download_fails2 :: env where
  "env_download_fails2 =
     env_download_fails\<lparr>generate_candidates_manifest := (\<lambda>c t. Inr m2)\<rparr>"

text \<open>Every upload attempt fails.\<close>

definition env_upload_fails :: env where
  "env_upload_fails =
     env_ok\<lparr>upload_file := (\<lambda>tr url hdrs path. Some (OtherException ''upload''))\<rparr>"

text \<open>
  The signed URL has expired at the first upload attempt of a run; later attempts are
  accepted.
\<close>

definition env_expired :: env where
  "env_expired =
     env_ok\<lparr>upload_file :=
       (\<lambda>tr url hdrs path. if length (upload_events tr) \<le> 2
                             then Some (OtherException ''expired'') else None)\<rparr>"

text \<open>The task does not pass its schema.\<close>

definition env_bad_task :: env where
  "env_bad_task =
     env_ok\<lparr>validate_task_schema := (\<lambda>c t. Some (ScriptWorkerTaskException 3))\<rparr>"

section \<open>Frame and trace lemmas\<close>

lemma emit_simps:
  "heap (emit e st) = heap st" "next_addr (emit e st) = next_addr st"
  "types_map (emit e st) = types_map st" "trace (emit e st) = trace st @ [e]"
  by (simp_all add: emit_def)

lemma retry_async_emits:
  assumes f: "\<And>s. snd (func s) = emit ev s"
    and r: "retry_async n func st = (r, st')"
  shows "heap st' = heap st \<and> next_addr st' = next_addr st \<and> types_map st' = types_map st \<and>
     (\<exists>k. 1 \<le> k \<and> k \<le> Suc n \<and> trace st' = trace st @ replicate k ev)"
  using r
proof (induction n arbitrary: st)
  case 0
  then have "st' = emit ev st" using f[of st] by simp
  moreover have "trace (emit ev st) = trace st @ replicate 1 ev" by (simp add: emit_simps)
  ultimately show ?case by (auto simp: emit_simps intro!: exI[of _ 1])
next
  case (Suc n)
  obtain x s1 where fs: "func st = (x, s1)" by (cases "func st")
  with f[of st] have s1: "s1 = emit ev st" by simp
  show ?case
  proof (cases x)
    case None
    with Suc.prems fs have "st' = s1" by simp
    with s1 show ?thesis by (auto simp: emit_simps intro!: exI[of _ 1])
  next
    case (Some e)
    with Suc.prems fs have "retry_async n func s1 = (r, st')" by simp
    from Suc.IH[OF this] obtain k where
      k: "heap st' = heap s1" "next_addr st' = next_addr s1" "types_map st' = types_map s1"
         "1 \<le> k" "k \<le> Suc n" "trace st' = trace s1 @ replicate k ev"
      by blast
    then have "trace st' = trace st @ replicate (Suc k) ev"
      by (simp add: s1 emit_simps replicate_append_same)
    moreover have "1 \<le> Suc k \<and> Suc k \<le> Suc (Suc n)" using k by simp
    ultimately show ?thesis using k(1-3) s1 by (metis emit_simps(1-3))
  qed
qed

lemma download_file_call_snd:
  "snd (download_file_call E url path s) = emit (DownloadAttempt url path) s"
  by (simp add: download_file_call_def Let_def)

lemma upload_file_call_snd:
  "snd (upload_file_call E url hdrs path s) = emit (UploadAttempt url hdrs path) s"
  by (simp add: upload_file_call_def Let_def)

lemma download_frame:
  assumes "download E url path st = (r, st')"
  shows "heap st' = heap st \<and> next_addr st' = next_addr st \<and> types_map st' = types_map st \<and>
     (\<exists>k. 1 \<le> k \<and> k \<le> Suc (attempts E - 1) \<and>
          trace st' = trace st @ replicate k (DownloadAttempt url path))"
  using retry_async_emits[OF download_file_call_snd assms[unfolded download_def]] .

lemma upload_to_s3_events:
  assumes "upload_to_s3 E ctx key path st = (r, st')"
  shows "heap st' = heap st \<and> next_addr st' = next_addr st \<and> types_map st' = types_map st \<and>
     (\<exists>k. 1 \<le> k \<and> k \<le> Suc (attempts E - 1) \<and>
        trace st' = trace st @
          Presign \<lparr>Bucket = bucket (s3 (heap st (config ctx))), Key = key,
                   ContentType = guess_type (types_map st) path\<rparr> 30
          # (case generate_presigned_url E
                    (trace st @
                       [Presign \<lparr>Bucket = bucket (s3 (heap st (config ctx))), Key = key,
                                 ContentType = guess_type (types_map st) path\<rparr> 30])
                    (credentials (s3 (heap st (config ctx))))
                    \<lparr>Bucket = bucket (s3 (heap st (config ctx))), Key = key,
                      ContentType = guess_type (types_map st) path\<rparr> 30 of
               Inl e \<Rightarrow> []
             | Inr url \<Rightarrow>
                 replicate k
                   (UploadAttempt url [(''Content-Type'', guess_type (types_map st) path)] path)))"
proof -
  let ?kw = "\<lparr>Bucket = bucket (s3 (heap st (config ctx))), Key = key,
               ContentType = guess_type (types_map st) path\<rparr>"
  let ?hdrs = "[(''Content-Type'', guess_type (types_map st) path)]"
  let ?s1 = "emit (Presign ?kw 30) st"
  show ?thesis
  proof (cases "generate_presigned_url E (trace ?s1)
                  (credentials (s3 (heap st (config ctx)))) ?kw 30")
    case (Inl e)
    with assms have "st' = ?s1" by (simp add: upload_to_s3_def Let_def)
    with Inl show ?thesis by (auto simp: emit_simps intro!: exI[of _ 1])
  next
    case (Inr url)
    with assms have "retry_async (attempts E - 1) (upload_file_call E url ?hdrs path) ?s1 = (r, st')"
      by (simp add: upload_to_s3_def Let_def)
    from retry_async_emits[OF upload_file_call_snd this] obtain k where
      k: "heap st' = heap ?s1" "next_addr st' = next_addr ?s1" "types_map st' = types_map ?s1"
         "1 \<le> k" "k \<le> Suc (attempts E - 1)"
         "trace st' = trace ?s1 @ replicate k (UploadAttempt url ?hdrs path)"
      by blast
    with Inr show ?thesis by (auto simp: emit_simps)
  qed
qed

lemma presigned_keys_append: "presigned_keys (xs @ ys) = presigned_keys xs @ presigned_keys ys"
  by (induction xs rule: presigned_keys.induct) simp_all

lemma upload_events_append: "upload_events (xs @ ys) = upload_events xs @ upload_events ys"
  by (induction xs rule: upload_events.induct) simp_all

lemma downloaded_append: "downloaded (xs @ ys) = downloaded xs @ downloaded ys"
  by (induction xs rule: downloaded.induct) simp_all

lemma validated_append: "validated (xs @ ys) = validated xs @ validated ys"
  by (induction xs rule: validated.induct) simp_all

lemma replicate_upload_attempt:
  "presigned_keys (replicate k (UploadAttempt u h p)) = []"
  "validated (replicate k (UploadAttempt u h p)) = []"
  "downloaded (replicate k (UploadAttempt u h p)) = []"
  by (induction k) simp_all

lemma replicate_download_attempt:
  "presigned_keys (replicate k (DownloadAttempt u p)) = []"
  "validated (replicate k (DownloadAttempt u p)) = []"
  "upload_events (replicate k (DownloadAttempt u p)) = []"
  by (induction k) simp_all

lemma upload_to_s3_keys:
  assumes "upload_to_s3 E ctx key path st = (r, st')"
  shows "presigned_keys (trace st') = presigned_keys (trace st) @ [key]"
    and "validated (trace st') = validated (trace st)"
    and "downloaded (trace st') = downloaded (trace st)"
    and "\<exists>evs. trace st' = trace st @ evs"
proof -
  let ?kw = "\<lparr>Bucket = bucket (s3 (heap st (config ctx))), Key = key,
               ContentType = guess_type (types_map st) path\<rparr>"
  let ?g = "generate_presigned_url E (trace st @ [Presign ?kw 30])
             (credentials (s3 (heap st (config ctx)))) ?kw 30"
  from upload_to_s3_events[OF assms] obtain k where
    k: "trace st' = trace st @ Presign ?kw 30 #
          (case ?g of Inl e \<Rightarrow> []
           | Inr url \<Rightarrow>
               replicate k
                 (UploadAttempt url [(''Content-Type'', guess_type (types_map st) path)] path))"
    by blast
  have "\<exists>evs. trace st' = trace st @ Presign ?kw 30 # evs \<and> presigned_keys evs = [] \<and>
          validated evs = [] \<and> downloaded evs = []"
  proof (cases ?g)
    case (Inl e)
    with k show ?thesis by simp
  next
    case (Inr url)
    with k show ?thesis by (simp add: replicate_upload_attempt)
  qed
  then obtain evs where
    evs: "trace st' = trace st @ Presign ?kw 30 # evs" "presigned_keys evs = []"
      "validated evs = []" "downloaded evs = []"
    by blast
  show "presigned_keys (trace st') = presigned_keys (trace st) @ [key]"
    by (simp add: evs presigned_keys_append)
  show "validated (trace st') = validated (trace st)"
    by (simp add: evs validated_append)
  show "downloaded (trace st') = downloaded (trace st)"
    by (simp add: evs downloaded_append)
  show "\<exists>evs. trace st' = trace st @ evs"
    using evs(1) by blast
qed

lemma upload_all_frame:
  "upload_all E ctx dests path st = (r, st') \<Longrightarrow>
     heap st' = heap st \<and> next_addr st' = next_addr st \<and> types_map st' = types_map st \<and>
     validated (trace st') = validated (trace st) \<and> downloaded (trace st') = downloaded (trace st)"
proof (induction dests arbitrary: st)
  case Nil
  then show ?case by simp
next
  case (Cons d ds)
  obtain x s1 where u: "upload_to_s3 E ctx d path st = (x, s1)" by (cases "upload_to_s3 E ctx d path st")
  note f = upload_to_s3_events[OF u] upload_to_s3_keys(2,3)[OF u]
  show ?case
  proof (cases x)
    case None
    with Cons.prems u have "upload_all E ctx ds path s1 = (r, st')" by simp
    from Cons.IH[OF this] f show ?thesis by simp
  next
    case (Some e)
    with Cons.prems u have "st' = s1" by simp
    with f show ?thesis by simp
  qed
qed

lemma validating_simps:
  "heap (validating ctx source st) (next_addr st) =
     setdefault_ids (heap st (config ctx)) (dependencies (task ctx))"
  "a \<noteq> next_addr st \<Longrightarrow> heap (validating ctx source st) a = heap st a"
  "work_dir (heap (validating ctx source st) (config ctx)) = work_dir (heap st (config ctx))"
  "next_addr (validating ctx source st) = Suc (next_addr st)"
  "types_map (validating ctx source st) = types_map st"
  "trace (validating ctx source st) = trace st @ [Validate source]"
  by (simp_all add: validating_def deepcopy_def setdefault_def emit_def setdefault_ids_def
      split: option.splits)

lemma beetmove_bit_unfold:
  "beetmove_bit E ctx source destinations st =
     (case validate_artifact_url E
             (setdefault_ids (heap st (config ctx)) (dependencies (task ctx))) source of
        Inl e \<Rightarrow> (Some e, validating ctx source st)
      | Inr rel_path \<Rightarrow>
          (case download E source (os_path_join (work_dir (heap st (config ctx))) rel_path)
                  (validating ctx source st) of
             (Some e, st4) \<Rightarrow> (Some e, st4)
           | (None, st4) \<Rightarrow>
               upload_all E ctx destinations
                 (os_path_join (work_dir (heap st (config ctx))) rel_path) st4))"
proof -
  have "beetmove_bit E ctx source destinations st =
     (case validate_artifact_url E (heap (validating ctx source st) (next_addr st)) source of
        Inl e \<Rightarrow> (Some e, validating ctx source st)
      | Inr rel_path \<Rightarrow>
          (case download E source
                  (os_path_join (work_dir (heap (validating ctx source st) (config ctx))) rel_path)
                  (validating ctx source st) of
             (Some e, st4) \<Rightarrow> (Some e, st4)
           | (None, st4) \<Rightarrow>
               upload_all E ctx destinations
                 (os_path_join (work_dir (heap (validating ctx source st) (config ctx))) rel_path)
                 st4))"
    by (simp add: beetmove_bit_def validating_def deepcopy_def Let_def
        cong: sum.case_cong prod.case_cong option.case_cong)
  then show ?thesis by (simp only: validating_simps)
qed

section \<open>Jobs and their traces\<close>

lemma upload_all_extends:
  "upload_all E ctx dests path st = (r, st') \<Longrightarrow> \<exists>evs. trace st' = trace st @ evs"
proof (induction dests arbitrary: st)
  case Nil
  then show ?case by simp
next
  case (Cons d ds)
  obtain x s1 where u: "upload_to_s3 E ctx d path st = (x, s1)" by (cases "upload_to_s3 E ctx d path st")
  from upload_to_s3_keys(4)[OF u] obtain evs1 where e1: "trace s1 = trace st @ evs1" by blast
  show ?case
  proof (cases x)
    case None
    with Cons.prems u have "upload_all E ctx ds path s1 = (r, st')" by simp
    from Cons.IH[OF this] e1 show ?thesis by auto
  next
    case (Some e)
    with Cons.prems u have "st' = s1" by simp
    with e1 show ?thesis by blast
  qed
qed

lemma beetmove_bit_extends:
  "\<exists>evs. trace (snd (beetmove_bit E ctx source dests st)) = trace st @ Validate source # evs"
proof (cases "validate_artifact_url E
        (setdefault_ids (heap st (config ctx)) (dependencies (task ctx))) source")
  case (Inl e)
  then show ?thesis by (simp add: beetmove_bit_unfold validating_simps)
next
  case (Inr rel)
  let ?p = "os_path_join (work_dir (heap st (config ctx))) rel"
  obtain x s4 where d: "download E source ?p (validating ctx source st) = (x, s4)"
    by (cases "download E source ?p (validating ctx source st)")
  from download_frame[OF d] obtain evs1 where
    e1: "trace s4 = trace st @ Validate source # evs1" by (auto simp: validating_simps)
  show ?thesis
  proof (cases x)
    case (Some e)
    with Inr d e1 show ?thesis by (simp add: beetmove_bit_unfold)
  next
    case None
    obtain r s5 where u: "upload_all E ctx dests ?p s4 = (r, s5)"
      by (cases "upload_all E ctx dests ?p s4")
    from upload_all_extends[OF u] e1 obtain evs2 where
      "trace s5 = trace st @ Validate source # evs2" by auto
    with None Inr d u show ?thesis by (simp add: beetmove_bit_unfold)
  qed
qed

lemma upload_all_keys:
  "upload_all E ctx dests path st = (None, st') \<Longrightarrow>
     presigned_keys (trace st') = presigned_keys (trace st) @ dests"
proof (induction dests arbitrary: st)
  case Nil
  then show ?case by simp
next
  case (Cons d ds)
  obtain x s1 where u: "upload_to_s3 E ctx d path st = (x, s1)"
    by (cases "upload_to_s3 E ctx d path st")
  show ?case
  proof (cases x)
    case None
    with Cons.prems u have "upload_all E ctx ds path s1 = (None, st')" by simp
    from Cons.IH[OF this] upload_to_s3_keys(1)[OF u] show ?thesis by simp
  next
    case (Some e)
    with Cons.prems u show ?thesis by simp
  qed
qed

lemma beetmove_bit_success:
  assumes "beetmove_bit E ctx source dests st = (None, st')"
  shows "validated (trace st') = validated (trace st) @ [source] \<and>
         presigned_keys (trace st') = presigned_keys (trace st) @ dests"
proof (cases "validate_artifact_url E
        (setdefault_ids (heap st (config ctx)) (dependencies (task ctx))) source")
  case (Inl e)
  with assms show ?thesis by (simp add: beetmove_bit_unfold)
next
  case (Inr rel)
  let ?p = "os_path_join (work_dir (heap st (config ctx))) rel"
  obtain x s4 where d: "download E source ?p (validating ctx source st) = (x, s4)"
    by (cases "download E source ?p (validating ctx source st)")
  from download_frame[OF d] obtain k where
    "trace s4 = (trace st @ [Validate source]) @ replicate k (DownloadAttempt source ?p)"
    by (auto simp: validating_simps)
  then have t4: "validated (trace s4) = validated (trace st) @ [source]"
    "presigned_keys (trace s4) = presigned_keys (trace st)"
    by (simp_all only: validated_append presigned_keys_append replicate_download_attempt)
      simp_all
  show ?thesis
  proof (cases x)
    case (Some e)
    with Inr d assms show ?thesis by (simp add: beetmove_bit_unfold)
  next
    case None
    with Inr d assms have u: "upload_all E ctx dests ?p s4 = (None, st')"
      by (simp add: beetmove_bit_unfold)
    from upload_all_frame[OF u] upload_all_keys[OF u] t4 show ?thesis by simp
  qed
qed

lemma run_jobs_success:
  "run_jobs E ctx js st = (None, st') \<Longrightarrow>
     validated (trace st') = validated (trace st) @ map fst js \<and>
     presigned_keys (trace st') = presigned_keys (trace st) @ concat (map snd js)"
proof (induction js arbitrary: st)
  case Nil
  then show ?case by simp
next
  case (Cons j js)
  obtain source dests where j: "j = (source, dests)" by (cases j)
  obtain x s1 where b: "beetmove_bit E ctx source dests st = (x, s1)"
    by (cases "beetmove_bit E ctx source dests st")
  show ?case
  proof (cases x)
    case None
    with Cons.prems j b have "run_jobs E ctx js s1 = (None, st')" by simp
    from Cons.IH[OF this] beetmove_bit_success[OF b[unfolded None]] show ?thesis
      by (simp add: j)
  next
    case (Some e)
    with Cons.prems j b show ?thesis by simp
  qed
qed

lemma run_jobs_append:
  "run_jobs E ctx (xs @ ys) st =
     (case run_jobs E ctx xs st of
        (Some x, st') \<Rightarrow> (Some x, st')
      | (None, st') \<Rightarrow> run_jobs E ctx ys st')"
proof (induction xs arbitrary: st)
  case Nil
  then show ?case by simp
next
  case (Cons j js)
  obtain source dests where j: "j = (source, dests)" by (cases j)
  show ?case
    by (cases "beetmove_bit E ctx source dests st")
       (simp add: j Cons.IH split: option.split)
qed

lemma beetmove_deliverables_run_jobs:
  "beetmove_deliverables E ctx m ds st = run_jobs E ctx (map (\<lambda>(d, e). copy_job m e) ds) st"
proof (induction ds arbitrary: st)
  case Nil
  then show ?case by simp
next
  case (Cons p ds)
  obtain d e where p: "p = (d, e)" by (cases p)
  obtain source dests where c: "copy_job m e = (source, dests)" by (cases "copy_job m e")
  show ?case
    by (cases "beetmove_bit E ctx source dests st")
       (simp add: p c Cons.IH split: option.split)
qed

lemma beetmove_locales_run_jobs:
  "beetmove_locales E ctx m ls st =
     run_jobs E ctx (map (copy_job m) (concat (map (\<lambda>(locale, ds). map snd ds) ls))) st"
proof (induction ls arbitrary: st)
  case Nil
  then show ?case by simp
next
  case (Cons p ls)
  obtain l ds where p: "p = (l, ds)" by (cases p)
  have m: "map (\<lambda>(d, e). copy_job m e) ds = map (copy_job m) (map snd ds)"
    by (simp add: case_prod_unfold comp_def)
  show ?case
    by (cases "run_jobs E ctx (map (copy_job m) (map snd ds)) st")
       (simp add: p Cons.IH beetmove_deliverables_run_jobs m run_jobs_append split: option.split)
qed

lemma beetmove_bits_run_jobs:
  "beetmove_bits E ctx m st = run_jobs E ctx (map (copy_job m) (entries m)) st"
  by (simp add: beetmove_bits_def entries_def beetmove_locales_run_jobs)

section \<open>Evaluating the concrete run\<close>

lemmas fixture_defs = cfg0_def st0_def task0_def ctx0_def m1_def m2_def env_ok_def
  env_untrusted_def env_download_fails_def env_upload_fails_def env_expired_def env_bad_task_def
  env_download_fails2_def

lemmas run_defs = beetmove_bits_def beetmove_bit_def deepcopy_def setdefault_def
  setdefault_ids_def emit_def download_def download_file_call_def upload_to_s3_def
  upload_file_call_def copy_job_def os_path_join_def startswith_sep_def endswith_sep_def
  guess_type_def splitext_ext_def Let_def numeral_2_eq_2

section \<open>The claims\<close>

text \<open>
  C1. In every copy job the validation of the source comes first: whatever the job does, the
  events it adds to the trace start with the validation of its source, so every download
  attempt of the job comes after it. When \<^verbatim>\<open>validate_artifact_url\<close> raises on the copy
  of the configuration, the job ends with that exception, the validation is the only event
  it adds, and no download attempt is made.
\<close>

theorem validation_precedes_download:
  "(\<exists>evs. trace (snd (beetmove_bit E ctx source dests st)) = trace st @ Validate source # evs) \<and>
   (validate_artifact_url E
       (setdefault_ids (heap st (config ctx)) (dependencies (task ctx))) source = Inl e \<longrightarrow>
      fst (beetmove_bit E ctx source dests st) = Some e \<and>
      trace (snd (beetmove_bit E ctx source dests st)) = trace st @ [Validate source] \<and>
      downloaded (trace (snd (beetmove_bit E ctx source dests st))) = downloaded (trace st))"
  using beetmove_bit_extends[of E ctx source dests st]
  by (simp add: beetmove_bit_unfold validating_simps downloaded_append)

text \<open>
  The witness of C1: under collaborators that trust no source, the job for
  \<^verbatim>\<open>u/a.exe\<close> raises and leaves the validation alone on the trace.
\<close>

theorem validation_precedes_download_witness:
  "validate_artifact_url env_untrusted
       (setdefault_ids (heap st0 (config ctx0)) (dependencies (task ctx0))) ''u/a.exe''
     = Inl (ScriptWorkerTaskException 3) \<and>
   fst (beetmove_bit env_untrusted ctx0 ''u/a.exe'' [''d/a.exe'', ''l/a.exe''] st0)
     = Some (ScriptWorkerTaskException 3) \<and>
   trace (snd (beetmove_bit env_untrusted ctx0 ''u/a.exe'' [''d/a.exe'', ''l/a.exe''] st0))
     = [Validate ''u/a.exe'']"
  using validation_precedes_download[of env_untrusted ctx0 "''u/a.exe''"
      "[''d/a.exe'', ''l/a.exe'']" st0 "ScriptWorkerTaskException 3"]
  by (simp add: env_untrusted_def env_ok_def st0_def)

text \<open>
  C2, as the code has it. When the source is valid, the download has returned and the upload
  to the dated destination raises (its attempts used up, or the URL request failed), the
  job ends there with that exception, in the state the failed upload left: a URL was
  requested for the dated key and for no other, so the latest destination is not attempted.
\<close>

theorem failed_upload_ends_job:
  assumes "validate_artifact_url E
             (setdefault_ids (heap st (config ctx)) (dependencies (task ctx))) source = Inr rel_path"
    and "download E source (os_path_join (work_dir (heap st (config ctx))) rel_path)
           (validating ctx source st) = (None, st4)"
    and "upload_to_s3 E ctx dated (os_path_join (work_dir (heap st (config ctx))) rel_path) st4
           = (Some e, st5)"
  shows "beetmove_bit E ctx source [dated, latest] st = (Some e, st5) \<and>
         presigned_keys (trace st5) = presigned_keys (trace st) @ [dated]"
proof -
  from download_frame[OF assms(2)] obtain k where
    "trace st4 = (trace st @ [Validate source]) @ replicate k (DownloadAttempt source
        (os_path_join (work_dir (heap st (config ctx))) rel_path))"
    by (auto simp: validating_simps)
  then have "presigned_keys (trace st4) = presigned_keys (trace st)"
    by (simp only: presigned_keys_append replicate_download_attempt) simp
  with upload_to_s3_keys(1)[OF assms(3)]
  have "presigned_keys (trace st5) = presigned_keys (trace st) @ [dated]" by simp
  with assms show ?thesis by (simp add: beetmove_bit_unfold)
qed

text \<open>
  The witness of C2, with every upload attempt failing.
\<close>

theorem failed_upload_ends_job_witness:
  "fst (beetmove_bit env_upload_fails ctx0 ''u/a.exe'' [''d/a.exe'', ''l/a.exe''] st0)
     = Some (OtherException ''upload'') \<and>
   presigned_keys
     (trace (snd (beetmove_bit env_upload_fails ctx0 ''u/a.exe'' [''d/a.exe'', ''l/a.exe''] st0)))
     = [''d/a.exe'']"
proof -
  let ?s4 = "snd (download env_upload_fails ''u/a.exe'' ''/w/u/a.exe''
                    (validating ctx0 ''u/a.exe'' st0))"
  let ?s5 = "snd (upload_to_s3 env_upload_fails ctx0 ''d/a.exe'' ''/w/u/a.exe'' ?s4)"
  have v: "validate_artifact_url env_upload_fails
             (setdefault_ids (heap st0 (config ctx0)) (dependencies (task ctx0))) ''u/a.exe''
           = Inr ''u/a.exe''"
    by (simp add: fixture_defs setdefault_ids_def)
  have p: "os_path_join (work_dir (heap st0 (config ctx0))) ''u/a.exe'' = ''/w/u/a.exe''"
    by (simp add: fixture_defs os_path_join_def startswith_sep_def endswith_sep_def)
  have d: "download env_upload_fails ''u/a.exe''
             (os_path_join (work_dir (heap st0 (config ctx0))) ''u/a.exe'')
             (validating ctx0 ''u/a.exe'' st0)
           = (None, ?s4)"
    unfolding p
    by (simp add: download_def download_file_call_def env_upload_fails_def env_ok_def
        numeral_2_eq_2 Let_def)
  have u: "upload_to_s3 env_upload_fails ctx0 ''d/a.exe''
             (os_path_join (work_dir (heap st0 (config ctx0))) ''u/a.exe'') ?s4
           = (Some (OtherException ''upload''), ?s5)"
    unfolding p
    by (simp add: upload_to_s3_def upload_file_call_def env_upload_fails_def env_ok_def
        numeral_2_eq_2 Let_def)
  have t: "trace st0 = []" by (simp add: st0_def)
  from failed_upload_ends_job[OF v d u, of "''l/a.exe''"]
  show ?thesis by (simp add: t)
qed

text \<open>
  C2 as stated fails: with every upload attempt failing, the job makes its two attempts
  for the dated key, raises, and no URL is ever requested for the latest key.
\<close>

theorem latest_skipped_counterexample:
  "fst (beetmove_bit env_upload_fails ctx0 ''u/a.exe'' [''d/a.exe'', ''l/a.exe''] st0)
     = Some (OtherException ''upload'') \<and>
   trace (snd (beetmove_bit env_upload_fails ctx0 ''u/a.exe'' [''d/a.exe'', ''l/a.exe''] st0))
     = [Validate ''u/a.exe'',
        DownloadAttempt ''u/a.exe'' ''/w/u/a.exe'',
        Presign \<lparr>Bucket = ''b'', Key = ''d/a.exe'', ContentType = (None, None)\<rparr> 30,
        UploadAttempt ''s/d/a.exe'' [(''Content-Type'', (None, None))] ''/w/u/a.exe'',
        UploadAttempt ''s/d/a.exe'' [(''Content-Type'', (None, None))] ''/w/u/a.exe''] \<and>
   ''l/a.exe'' \<notin> set (presigned_keys
     (trace (snd (beetmove_bit env_upload_fails ctx0 ''u/a.exe'' [''d/a.exe'', ''l/a.exe''] st0))))"
  by (simp add: fixture_defs run_defs)

text \<open>
  C3, as the code has it. \<^verbatim>\<open>beetmove_bits\<close> has no handler: when the jobs before a job
  have run and that job raises, the exception leaves \<^verbatim>\<open>beetmove_bits\<close> at once, in the
  state the failed job left. No later job is started and nothing is collected in a report.
  The exception is then the exception of \<^verbatim>\<open>async_main\<close>, when that built this context
  and this manifest, and \<^verbatim>\<open>main\<close>, run as the script on that state, ends on it: with
  \<^verbatim>\<open>sys.exit\<close> for a \<^verbatim>\<open>ScriptWorkerTaskException\<close>, uncaught otherwise.
\<close>

theorem failed_job_ends_run:
  assumes "map (copy_job m) (entries m) = js1 @ (source, dests) # js2"
    and "run_jobs E ctx js1 st = (None, s1)"
    and "beetmove_bit E ctx source dests s1 = (Some e, s2)"
  shows "beetmove_bits E ctx m st = (Some e, s2) \<and>
         (get_task E (heap st (config ctx)) = Inr (task ctx) \<and>
          validate_task_schema E (heap st (config ctx)) (task ctx) = None \<and>
          generate_candidates_manifest E (heap st (config ctx)) (task ctx) = Inr m \<longrightarrow>
            async_main E (config ctx) st = (Some e, s2) \<and>
            ((name = None \<or> name = Some ''__main__'') \<and>
             setup_config E config_path argv s0 = Inr (config ctx, sc) \<and>
             st = setup_mimetypes E sc \<longrightarrow>
               main E name config_path argv s0 =
                 (case e of
                    ScriptWorkerTaskException c \<Rightarrow> (SystemExit c, s2)
                  | OtherException x \<Rightarrow> (Uncaught (OtherException x), s2))))"
proof -
  have b: "beetmove_bits E ctx m st = (Some e, s2)"
    using assms by (simp add: beetmove_bits_run_jobs run_jobs_append)
  have c: "\<lparr>config = config ctx, task = task ctx\<rparr> = ctx" by simp
  have a: "async_main E (config ctx) st = (Some e, s2)"
    if "get_task E (heap st (config ctx)) = Inr (task ctx)"
      and "validate_task_schema E (heap st (config ctx)) (task ctx) = None"
      and "generate_candidates_manifest E (heap st (config ctx)) (task ctx) = Inr m"
    using that b by (simp add: async_main_def c)
  have m: "main E name config_path argv s0 =
             (case e of
                ScriptWorkerTaskException c \<Rightarrow> (SystemExit c, s2)
              | OtherException x \<Rightarrow> (Uncaught (OtherException x), s2))"
    if "async_main E (config ctx) st = (Some e, s2)"
      and "name = None \<or> name = Some ''__main__''"
      and "setup_config E config_path argv s0 = Inr (config ctx, sc)"
      and "st = setup_mimetypes E sc"
    using that by (auto simp: main_def split: exc.splits)
  from b a m show ?thesis by blast
qed

text \<open>
  The witness of C3: two entries, every download attempt failing, \<^verbatim>\<open>main\<close> run as the
  script. The first job raises, only its source was ever validated, and the exception
  ends \<^verbatim>\<open>main\<close> uncaught.
\<close>

theorem failed_job_ends_run_witness:
  "fst (main env_download_fails2 None None [''x'', ''c.json''] st0)
     = Uncaught (OtherException ''download'') \<and>
   validated (trace (snd (main env_download_fails2 None None [''x'', ''c.json''] st0)))
     = [''u/a.exe'']"
proof -
  let ?E = "env_download_fails2"
  let ?ctx = "\<lparr>config = next_addr st0, task = task0\<rparr>"
  let ?sc = "st0\<lparr>heap := (heap st0)(next_addr st0 := cfg0), next_addr := Suc (next_addr st0)\<rparr>"
  let ?st = "setup_mimetypes ?E ?sc"
  let ?s2 = "snd (beetmove_bit ?E ?ctx ''u/a.exe'' [''d/a.exe'', ''l/a.exe''] ?st)"
  have j: "map (copy_job m2) (entries m2) =
             [] @ (''u/a.exe'', [''d/a.exe'', ''l/a.exe''])
                # [(''u/b.exe'', [''d/b.exe'', ''l/b.exe''])]"
    by (simp add: m2_def entries_def copy_job_def os_path_join_def startswith_sep_def
        endswith_sep_def)
  have r: "run_jobs ?E ?ctx [] ?st = (None, ?st)" by simp
  have b: "beetmove_bit ?E ?ctx ''u/a.exe'' [''d/a.exe'', ''l/a.exe''] ?st
             = (Some (OtherException ''download''), ?s2)"
    by (simp add: fixture_defs run_defs setup_mimetypes_def mimetypes_init_def)
  have t: "validated (trace ?s2) = [''u/a.exe'']"
    by (simp add: fixture_defs run_defs setup_mimetypes_def mimetypes_init_def)
  have g: "get_task ?E (heap ?st (config ?ctx)) = Inr (task ?ctx) \<and>
           validate_task_schema ?E (heap ?st (config ?ctx)) (task ?ctx) = None \<and>
           generate_candidates_manifest ?E (heap ?st (config ?ctx)) (task ?ctx) = Inr m2"
    by (simp add: env_download_fails2_def env_download_fails_def env_ok_def)
  have n: "((None::string option) = None \<or> (None::string option) = Some ''__main__'') \<and>
           setup_config ?E None [''x'', ''c.json''] st0 = Inr (config ?ctx, ?sc) \<and>
           ?st = setup_mimetypes ?E ?sc"
    by (simp add: setup_config_def env_download_fails2_def env_download_fails_def env_ok_def)
  from failed_job_ends_run[OF j r b, of None None "[''x'', ''c.json'']" st0 ?sc] g n
  have "main ?E None None [''x'', ''c.json''] st0 = (Uncaught (OtherException ''download''), ?s2)"
    by simp
  with t show ?thesis by simp
qed

text \<open>
  C3 as stated fails: of the two jobs of the manifest the second is never attempted, and
  the exception of the first is the result of \<^verbatim>\<open>beetmove_bits\<close>.
\<close>

theorem fail_fast_counterexample:
  "length (entries m2) = 2 \<and>
   fst (beetmove_bits env_download_fails ctx0 m2 st0) = Some (OtherException ''download'') \<and>
   trace (snd (beetmove_bits env_download_fails ctx0 m2 st0))
     = [Validate ''u/a.exe'',
        DownloadAttempt ''u/a.exe'' ''/w/u/a.exe'',
        DownloadAttempt ''u/a.exe'' ''/w/u/a.exe''] \<and>
   validated (trace (snd (beetmove_bits env_download_fails ctx0 m2 st0))) = [''u/a.exe'']"
  by (simp add: fixture_defs run_defs entries_def)

text \<open>
  C4 does not hold of the code. Whatever \<open>MIME_MAP\<close> holds, \<^verbatim>\<open>setup_mimetypes\<close>
  leaves the module's table as \<^verbatim>\<open>mimetypes.init()\<close> loaded it. So where the table
  says \<^verbatim>\<open>.asc\<close> is \<^verbatim>\<open>text/plain\<close> and the platform knows no such extension, the
  upload of \<^verbatim>\<open>/w/x.asc\<close> sends the pair \<^verbatim>\<open>(None, None)\<close> as its content type, in
  the parameters of the URL request and in the headers.
\<close>

theorem mime_map_not_registered:
  "types_map (setup_mimetypes E st) = platform_types E \<and>
   map_of (MIME_MAP env_ok) (splitext_ext ''/w/x.asc'') = Some ''text/plain'' \<and>
   types_map (setup_mimetypes env_ok st0) (splitext_ext ''/w/x.asc'') = None \<and>
   trace (snd (upload_to_s3 env_ok ctx0 ''d/x.asc'' ''/w/x.asc'' (setup_mimetypes env_ok st0)))
     = [Presign \<lparr>Bucket = ''b'', Key = ''d/x.asc'', ContentType = (None, None)\<rparr> 30,
        UploadAttempt ''s/d/x.asc'' [(''Content-Type'', (None, None))] ''/w/x.asc'']"
  by (simp add: fixture_defs run_defs setup_mimetypes_def mimetypes_init_def)

text \<open>
  C5. When the source is valid and the download raises, the job ends with that exception
  in the state the download left, whatever the destinations are: the trace has gained no
  URL request and no upload attempt.
\<close>

theorem failed_download_skips_uploads:
  assumes "validate_artifact_url E
             (setdefault_ids (heap st (config ctx)) (dependencies (task ctx))) source = Inr rel_path"
    and "download E source (os_path_join (work_dir (heap st (config ctx))) rel_path)
           (validating ctx source st) = (Some e, st4)"
  shows "beetmove_bit E ctx source dests st = (Some e, st4) \<and>
         upload_events (trace st4) = upload_events (trace st) \<and>
         presigned_keys (trace st4) = presigned_keys (trace st)"
proof -
  from download_frame[OF assms(2)] obtain k where
    "trace st4 = (trace st @ [Validate source]) @ replicate k (DownloadAttempt source
        (os_path_join (work_dir (heap st (config ctx))) rel_path))"
    by (auto simp: validating_simps)
  then have "upload_events (trace st4) = upload_events (trace st)"
    "presigned_keys (trace st4) = presigned_keys (trace st)"
    by (simp_all only: upload_events_append presigned_keys_append replicate_download_attempt)
      simp_all
  with assms show ?thesis by (simp add: beetmove_bit_unfold)
qed

text \<open>
  The witness of C5, with every download attempt failing.
\<close>

theorem failed_download_skips_uploads_witness:
  "fst (beetmove_bit env_download_fails ctx0 ''u/a.exe'' [''d/a.exe'', ''l/a.exe''] st0)
     = Some (OtherException ''download'') \<and>
   upload_events
     (trace (snd (beetmove_bit env_download_fails ctx0 ''u/a.exe'' [''d/a.exe'', ''l/a.exe''] st0)))
     = []"
proof -
  let ?s4 = "snd (download env_download_fails ''u/a.exe'' ''/w/u/a.exe''
                    (validating ctx0 ''u/a.exe'' st0))"
  have v: "validate_artifact_url env_download_fails
             (setdefault_ids (heap st0 (config ctx0)) (dependencies (task ctx0))) ''u/a.exe''
           = Inr ''u/a.exe''"
    by (simp add: fixture_defs setdefault_ids_def)
  have p: "os_path_join (work_dir (heap st0 (config ctx0))) ''u/a.exe'' = ''/w/u/a.exe''"
    by (simp add: fixture_defs os_path_join_def startswith_sep_def endswith_sep_def)
  have d: "download env_download_fails ''u/a.exe''
             (os_path_join (work_dir (heap st0 (config ctx0))) ''u/a.exe'')
             (validating ctx0 ''u/a.exe'' st0)
           = (Some (OtherException ''download''), ?s4)"
    unfolding p
    by (simp add: download_def download_file_call_def env_download_fails_def env_ok_def
        numeral_2_eq_2 Let_def)
  have t: "trace st0 = []" by (simp add: st0_def)
  from failed_download_skips_uploads[OF v d, of "[''d/a.exe'', ''l/a.exe'']"]
  show ?thesis by (simp add: t)
qed

text \<open>
  C6. \<^verbatim>\<open>beetmove_bits\<close> runs, one after the other, one job per entry of the mapping:
  as many jobs as there are locale and deliverable pairs, each with the source
  \<^verbatim>\<open>artifact_base_url\<close> joined with the entry's artifact and the two destinations, the
  dated prefix joined with the entry's key and then the latest prefix joined with it. A
  run that raises nothing has validated exactly these sources and requested a URL for
  exactly these destinations, in this order.
\<close>

theorem one_job_per_entry:
  "beetmove_bits E ctx m st = run_jobs E ctx (map (copy_job m) (entries m)) st \<and>
   length (map (copy_job m) (entries m)) = sum_list (map (\<lambda>(locale, ds). length ds) (mapping m)) \<and>
   map (copy_job m) (entries m) =
     map (\<lambda>e. (os_path_join (artifact_base_url m) (artifact e),
                [os_path_join (s3_prefix_dated m) (s3_key e),
                 os_path_join (s3_prefix_latest m) (s3_key e)]))
       (entries m) \<and>
   (fst (beetmove_bits E ctx m st) = None \<longrightarrow>
      validated (trace (snd (beetmove_bits E ctx m st))) =
        validated (trace st) @ map (\<lambda>e. os_path_join (artifact_base_url m) (artifact e)) (entries m) \<and>
      presigned_keys (trace (snd (beetmove_bits E ctx m st))) =
        presigned_keys (trace st) @
          concat (map (\<lambda>e. [os_path_join (s3_prefix_dated m) (s3_key e),
                             os_path_join (s3_prefix_latest m) (s3_key e)]) (entries m)))"
proof -
  have n: "length (entries m) = sum_list (map (\<lambda>(locale, ds). length ds) (mapping m))"
    by (simp add: entries_def length_concat comp_def case_prod_unfold)
  have j: "map (copy_job m) (entries m) =
     map (\<lambda>e. (os_path_join (artifact_base_url m) (artifact e),
                [os_path_join (s3_prefix_dated m) (s3_key e),
                 os_path_join (s3_prefix_latest m) (s3_key e)]))
       (entries m)"
    by (simp add: copy_job_def)
  have s: "validated (trace st') =
        validated (trace st) @ map (\<lambda>e. os_path_join (artifact_base_url m) (artifact e)) (entries m) \<and>
      presigned_keys (trace st') =
        presigned_keys (trace st) @
          concat (map (\<lambda>e. [os_path_join (s3_prefix_dated m) (s3_key e),
                             os_path_join (s3_prefix_latest m) (s3_key e)]) (entries m))"
    if "beetmove_bits E ctx m st = (None, st')" for st'
    using run_jobs_success[OF that[unfolded beetmove_bits_run_jobs]]
    by (simp add: copy_job_def comp_def)
  have "fst (beetmove_bits E ctx m st) = None \<Longrightarrow>
          beetmove_bits E ctx m st = (None, snd (beetmove_bits E ctx m st))"
    by (metis prod.collapse)
  with s n j show ?thesis
    using beetmove_bits_run_jobs[of E ctx m st] by (simp only: length_map) blast
qed

text \<open>
  The witness of C6: the manifest with two entries, every transfer succeeding.
\<close>

theorem one_job_per_entry_witness:
  "fst (beetmove_bits env_ok ctx0 m2 st0) = None \<and>
   validated (trace (snd (beetmove_bits env_ok ctx0 m2 st0))) = [''u/a.exe'', ''u/b.exe''] \<and>
   presigned_keys (trace (snd (beetmove_bits env_ok ctx0 m2 st0)))
     = [''d/a.exe'', ''l/a.exe'', ''d/b.exe'', ''l/b.exe'']"
proof -
  have ok: "fst (beetmove_bits env_ok ctx0 m2 st0) = None"
    by (simp add: fixture_defs run_defs)
  have e: "entries m2 = [\<lparr>artifact = ''a.exe'', s3_key = ''a.exe''\<rparr>,
                         \<lparr>artifact = ''b.exe'', s3_key = ''b.exe''\<rparr>]"
    by (simp add: m2_def entries_def)
  have t: "trace st0 = []" by (simp add: st0_def)
  have b: "artifact_base_url m2 = ''u''" "s3_prefix_dated m2 = ''d''" "s3_prefix_latest m2 = ''l''"
    by (simp_all add: m2_def)
  note r = one_job_per_entry[of env_ok ctx0 m2 st0, THEN conjunct2, THEN conjunct2,
      THEN conjunct2, rule_format, OF ok]
  from r ok show ?thesis
    by (simp add: e t b os_path_join_def startswith_sep_def endswith_sep_def)
qed

text \<open>
  C7, as the code has it. One call of \<^verbatim>\<open>upload_to_s3\<close> requests one signed URL, with
  \<^verbatim>\<open>expires_in\<close> 30, before its first upload attempt; when the request raises nothing
  follows; otherwise between one and \<open>max 1 attempts\<close> upload attempts follow, all with
  the URL that one request returned. Within the series the URL is never requested again.
\<close>

theorem one_signed_url_per_series:
  "\<exists>k. 1 \<le> k \<and> k \<le> max 1 (attempts E) \<and>
     trace (snd (upload_to_s3 E ctx key path st)) =
       trace st @
         Presign \<lparr>Bucket = bucket (s3 (heap st (config ctx))), Key = key,
                  ContentType = guess_type (types_map st) path\<rparr> 30
         # (case generate_presigned_url E
                   (trace st @
                      [Presign \<lparr>Bucket = bucket (s3 (heap st (config ctx))), Key = key,
                                ContentType = guess_type (types_map st) path\<rparr> 30])
                   (credentials (s3 (heap st (config ctx))))
                   \<lparr>Bucket = bucket (s3 (heap st (config ctx))), Key = key,
                     ContentType = guess_type (types_map st) path\<rparr> 30 of
              Inl e \<Rightarrow> []
            | Inr url \<Rightarrow>
                replicate k
                  (UploadAttempt url [(''Content-Type'', guess_type (types_map st) path)] path))"
proof -
  obtain r st' where u: "upload_to_s3 E ctx key path st = (r, st')"
    by (cases "upload_to_s3 E ctx key path st")
  have "Suc (attempts E - 1) = max 1 (attempts E)" by simp
  with upload_to_s3_events[OF u] show ?thesis by (simp add: u)
qed

text \<open>
  C7 as stated fails: the first upload attempt meets an expired URL, and the retry sends
  the same URL again without a new request.
\<close>

theorem expired_url_reused_counterexample:
  "upload_file env_expired
     [Presign \<lparr>Bucket = ''b'', Key = ''d/a.exe'', ContentType = (None, None)\<rparr> 30,
      UploadAttempt ''s/d/a.exe'' [(''Content-Type'', (None, None))] ''/w/u/a.exe'']
     ''s/d/a.exe'' [(''Content-Type'', (None, None))] ''/w/u/a.exe''
     = Some (OtherException ''expired'') \<and>
   fst (upload_to_s3 env_expired ctx0 ''d/a.exe'' ''/w/u/a.exe'' st0) = None \<and>
   trace (snd (upload_to_s3 env_expired ctx0 ''d/a.exe'' ''/w/u/a.exe'' st0))
     = [Presign \<lparr>Bucket = ''b'', Key = ''d/a.exe'', ContentType = (None, None)\<rparr> 30,
        UploadAttempt ''s/d/a.exe'' [(''Content-Type'', (None, None))] ''/w/u/a.exe'',
        UploadAttempt ''s/d/a.exe'' [(''Content-Type'', (None, None))] ''/w/u/a.exe'']"
  by (simp add: fixture_defs run_defs)

text \<open>
  C8. When \<^verbatim>\<open>main\<close> runs as the script and the configuration is loaded: if
  \<^verbatim>\<open>async_main\<close> returns, \<^verbatim>\<open>main\<close> returns and the exit status is 0; if
  \<^verbatim>\<open>async_main\<close> raises a \<^verbatim>\<open>ScriptWorkerTaskException\<close>, \<^verbatim>\<open>main\<close> calls
  \<^verbatim>\<open>sys.exit\<close> with the exit code of that exception.
\<close>

theorem exit_status_of_main:
  assumes "name = None \<or> name = Some ''__main__''"
    and "setup_config E config_path argv st = Inr (cfg, st1)"
  shows "(fst (async_main E cfg (setup_mimetypes E st1)) = None \<longrightarrow>
            exit_status (fst (main E name config_path argv st)) = 0) \<and>
         (fst (async_main E cfg (setup_mimetypes E st1)) = Some (ScriptWorkerTaskException c) \<longrightarrow>
            fst (main E name config_path argv st) = SystemExit c \<and>
            exit_status (fst (main E name config_path argv st)) = c)"
proof -
  obtain r s2 where a: "async_main E cfg (setup_mimetypes E st1) = (r, s2)"
    by (cases "async_main E cfg (setup_mimetypes E st1)")
  from assms a show ?thesis
    by (auto simp: main_def exit_status_def split: option.splits exc.splits)
qed

text \<open>
  The witness of C8: a run that succeeds, and a run whose task fails its schema with
  exit code 3.
\<close>

theorem exit_status_of_main_witness:
  "exit_status (fst (main env_ok None None [''x'', ''c.json''] st0)) = 0 \<and>
   fst (main env_bad_task None None [''x'', ''c.json''] st0) = SystemExit 3 \<and>
   exit_status (fst (main env_bad_task None None [''x'', ''c.json''] st0)) = 3"
proof -
  let ?s1 = "st0\<lparr>heap := (heap st0)(next_addr st0 := cfg0), next_addr := Suc (next_addr st0)\<rparr>"
  have n: "(None::string option) = None \<or> (None::string option) = Some ''__main__''" by simp
  have c1: "setup_config env_ok None [''x'', ''c.json''] st0 = Inr (next_addr st0, ?s1)"
    by (simp add: setup_config_def env_ok_def)
  have c2: "setup_config env_bad_task None [''x'', ''c.json''] st0 = Inr (next_addr st0, ?s1)"
    by (simp add: setup_config_def env_bad_task_def env_ok_def)
  have a1: "fst (async_main env_ok (next_addr st0) (setup_mimetypes env_ok ?s1)) = None"
    by (simp add: async_main_def setup_mimetypes_def mimetypes_init_def fixture_defs run_defs)
  have a2: "fst (async_main env_bad_task (next_addr st0) (setup_mimetypes env_bad_task ?s1))
              = Some (ScriptWorkerTaskException 3)"
    by (simp add: async_main_def setup_mimetypes_def mimetypes_init_def env_bad_task_def
        env_ok_def)
  from exit_status_of_main[OF n c1, of 0] a1
       exit_status_of_main[OF n c2, of 3] a2
  show ?thesis by (simp add: exit_status_def)
qed

text \<open>
  C9. When the shared configuration is an object of the store, a copy job leaves it as it
  was: the default for \<^verbatim>\<open>valid_artifact_task_ids\<close> is set on the new object that
  \<^verbatim>\<open>deepcopy\<close> allocated, and the shared configuration is still an object of the store
  for the next job.
\<close>

theorem shared_config_unchanged:
  assumes "config ctx < next_addr st"
  shows "heap (snd (beetmove_bit E ctx source dests st)) (config ctx) = heap st (config ctx) \<and>
         heap (snd (beetmove_bit E ctx source dests st)) (next_addr st)
           = setdefault_ids (heap st (config ctx)) (dependencies (task ctx)) \<and>
         config ctx < next_addr (snd (beetmove_bit E ctx source dests st))"
proof -
  let ?v = "validating ctx source st"
  have ne: "config ctx \<noteq> next_addr st" using assms by simp
  have v: "heap ?v (config ctx) = heap st (config ctx)"
    "heap ?v (next_addr st) = setdefault_ids (heap st (config ctx)) (dependencies (task ctx))"
    "next_addr ?v = Suc (next_addr st)"
    using ne by (simp_all add: validating_simps)
  show ?thesis
  proof (cases "validate_artifact_url E
        (setdefault_ids (heap st (config ctx)) (dependencies (task ctx))) source")
    case (Inl e)
    with v assms show ?thesis by (simp add: beetmove_bit_unfold)
  next
    case (Inr rel)
    let ?p = "os_path_join (work_dir (heap st (config ctx))) rel"
    obtain x s4 where d: "download E source ?p ?v = (x, s4)"
      by (cases "download E source ?p ?v")
    from download_frame[OF d] have f4: "heap s4 = heap ?v" "next_addr s4 = next_addr ?v"
      by simp_all
    show ?thesis
    proof (cases x)
      case (Some e)
      with Inr d f4 v assms show ?thesis by (simp add: beetmove_bit_unfold)
    next
      case None
      obtain r s5 where u: "upload_all E ctx dests ?p s4 = (r, s5)"
        by (cases "upload_all E ctx dests ?p s4")
      from upload_all_frame[OF u] have "heap s5 = heap s4" "next_addr s5 = next_addr s4"
        by simp_all
      with None Inr d u f4 v assms show ?thesis by (simp add: beetmove_bit_unfold)
    qed
  qed
qed

text \<open>
  The witness of C9: after the job, address 0 still holds the configuration without the
  key, and the copy at address 1 holds the dependencies of the task.
\<close>

theorem shared_config_unchanged_witness:
  "config ctx0 < next_addr st0 \<and>
   heap (snd (beetmove_bit env_ok ctx0 ''u/a.exe'' [''d/a.exe'', ''l/a.exe''] st0)) 0 = cfg0 \<and>
   heap (snd (beetmove_bit env_ok ctx0 ''u/a.exe'' [''d/a.exe'', ''l/a.exe''] st0)) 1
     = cfg0\<lparr>valid_artifact_task_ids := Some [''task123'']\<rparr>"
proof -
  have h: "config ctx0 < next_addr st0" by (simp add: ctx0_def st0_def)
  from shared_config_unchanged[OF h, of env_ok "''u/a.exe''" "[''d/a.exe'', ''l/a.exe'']"] h
  show ?thesis by (simp add: fixture_defs setdefault_ids_def)
qed

text \<open>
  C10. An artifact that begins with \<^verbatim>\<open>/\<close> is the source of its job as it stands,
  without \<^verbatim>\<open>artifact_base_url\<close>; a key that begins with \<^verbatim>\<open>/\<close> is both
  destinations as it stands, without the dated and the latest prefix.
\<close>

theorem absolute_entry_discards_base:
  "(startswith_sep (artifact e) \<longrightarrow> fst (copy_job m e) = artifact e) \<and>
   (startswith_sep (s3_key e) \<longrightarrow> snd (copy_job m e) = [s3_key e, s3_key e])"
  by (simp add: copy_job_def os_path_join_def)

text \<open>
  The witness of C10: the entry with artifact \<^verbatim>\<open>/a.exe\<close> and key \<^verbatim>\<open>/k\<close>.
\<close>

theorem absolute_entry_discards_base_witness:
  "startswith_sep (artifact \<lparr>artifact = ''/a.exe'', s3_key = ''/k''\<rparr>) \<and>
   startswith_sep (s3_key \<lparr>artifact = ''/a.exe'', s3_key = ''/k''\<rparr>) \<and>
   copy_job m1 \<lparr>artifact = ''/a.exe'', s3_key = ''/k''\<rparr> = (''/a.exe'', [''/k'', ''/k''])"
  using absolute_entry_discards_base[of "\<lparr>artifact = ''/a.exe'', s3_key = ''/k''\<rparr>" m1]
  by (simp add: startswith_sep_def prod_eq_iff)

end
